theory Spec2Isabelle
  imports Complex_Main
begin

section \<open>Training recipes: knowledge distillation and LoRA DPO on a single device\<close>

text \<open>
  A shallow embedding of the training-state machine of the two recipes
  \<^verbatim>\<open>recipes/knowledge_distillation_single_device.py\<close> (class \<^verbatim>\<open>KDRecipeSingleDevice\<close>) and
  \<^verbatim>\<open>recipes/lora_dpo_single_device.py\<close> (class \<^verbatim>\<open>LoRADPORecipeSingleDevice\<close>).

  Python integers are \<open>int\<close>; \<^verbatim>\<open>//\<close> and \<^verbatim>\<open>%\<close> on integers are floor division and its
  remainder, which is what \<open>div\<close> and \<open>mod\<close> on \<open>int\<close> are for a divisor other than zero;
  a zero divisor raises \<^verbatim>\<open>ZeroDivisionError\<close> and is a branch of the model. Tensor and float
  arithmetic is taken over the reals. An attribute that is \<^verbatim>\<open>None\<close> or an integer is an
  \<open>int option\<close>. Every exception is a value \<open>Inl e\<close> of a sum type.
\<close>

subsection \<open>Exceptions, warnings and emitted effects\<close>

datatype error = KeyError | ValueError | ZeroDivisionError | TypeError | UnboundLocalError

text \<open>The three calls of \<^verbatim>\<open>warn\<close> in \<^verbatim>\<open>_update_recipe_state\<close>, with the value each message prints.\<close>

datatype warning =
    SeedMismatch int
  | MaxStepsMismatch "int option"
  | TotalEpochsMismatch int

text \<open>
  The fields the recipes pass to \<^verbatim>\<open>TrainingProgress\<close> (the data loader's state
  dictionary is opaque and left out).
\<close>

record TrainingProgress =
  tp_seed :: int
  tp_epochs_run :: int
  tp_total_epochs :: int
  tp_max_steps_per_epoch :: "int option"

text \<open>
  What a run does to its collaborators, in the order it does it:
  \<^item> \<open>Backward g\<close>: \<^verbatim>\<open>backward()\<close> on the iteration's loss, which adds its gradient \<open>g\<close> to
    the accumulated one;
  \<^item> \<open>ScaleGrads c\<close>: \<^verbatim>\<open>training.scale_grads(self._model, c)\<close>;
  \<^item> \<open>OptimizerStep g\<close>: \<^verbatim>\<open>self._optimizer.step()\<close> applied to the gradient \<open>g\<close>,
    followed by \<^verbatim>\<open>zero_grad\<close>;
  \<^item> \<open>LogDict step metrics\<close>: \<^verbatim>\<open>self._metric_logger.log_dict(log_dict, step=step)\<close>, the
    metrics being named;
  \<^item> \<open>SaveCheckpoint tp epoch full_tensors dir_prefix\<close>: the call of
    \<^verbatim>\<open>self._checkpoint_client.save_checkpoint\<close>, \<open>dir_prefix\<close> being \<open>None\<close> when the
    argument is not passed.
\<close>

datatype event =
    is_Backward: Backward real
  | is_ScaleGrads: ScaleGrads real
  | is_OptimizerStep: OptimizerStep real
  | is_LogDict: LogDict int "(string \<times> real) list"
  | is_SaveCheckpoint: SaveCheckpoint (ckpt_progress: TrainingProgress) (ckpt_epoch: int)
      (ckpt_full_tensors: bool) (ckpt_dir_prefix: "string option")

subsection \<open>Configuration, recipe attributes and the checkpoint dictionary\<close>

text \<open>The entries of \<^verbatim>\<open>cfg\<close> the state machine reads; \<open>None\<close> is an absent entry.\<close>

record cfg =
  cfg_seed :: "int option"
  cfg_epochs :: int
  cfg_max_steps_per_epoch :: "int option"
  cfg_resume_from_checkpoint :: bool
  cfg_gradient_accumulation_steps :: int
  cfg_save_every_n_steps :: "int option"
  cfg_log_every_n_steps :: "int option"
  cfg_kd_ratio :: "real option"
  cfg_clip_grad_norm :: "real option"

text \<open>
  The attributes of \<^verbatim>\<open>self\<close> that both recipes hold. \<open>rng\<close> is not an attribute: it is the
  state of the process-wide random number generators, which \<^verbatim>\<open>training.set_seed\<close> writes;
  it is carried here so that what does and does not touch it can be stated.
  \<open>steps_per_epoch\<close> and \<open>checkpoint_dir_prefix\<close> do not exist before \<^verbatim>\<open>setup\<close>, which
  assigns both before anything reads them; the constructor's values \<open>0\<close> and \<open>[]\<close> for
  them are placeholders.
\<close>

record 'rng recipe =
  rng :: 'rng
  seed :: int
  epochs_run :: int
  total_epochs :: int
  max_steps_per_epoch :: "int option"
  global_step :: int
  resume_from_checkpoint :: bool
  gradient_accumulation_steps :: int
  save_every_n_steps :: "int option"
  log_every_n_steps :: int
  steps_per_epoch :: int
  checkpoint_dir_prefix :: string

record 'rng KD_recipe = "'rng recipe" +
  kd_ratio :: real
  clip_grad_norm :: "real option"

text \<open>
  The checkpoint dictionary, by the keys of \<^verbatim>\<open>torchtune.training\<close> the recipes look up.
  A field is \<open>None\<close> when the key is absent (the lookup raises \<^verbatim>\<open>KeyError\<close>) and
  \<open>Some v\<close> when it is bound to \<open>v\<close>, typed as \<^verbatim>\<open>TrainingProgress\<close> declares it;
  \<open>ADAPTER_KEY\<close> records only whether the key is present.
\<close>

record ckpt_dict =
  ADAPTER_KEY :: bool
  EPOCHS_KEY :: "int option"
  STEPS_KEY :: "int option"
  SEED_KEY :: "int option"
  MAX_STEPS_KEY :: "int option option"
  TOTAL_EPOCHS_KEY :: "int option"

subsection \<open>The constructors\<close>

text \<open>
  \<^verbatim>\<open>training.set_seed\<close> is a parameter: given the configured seed and the generators'
  state it returns the seed in use and the seeded generators.
\<close>

definition KD_init :: "(int option \<Rightarrow> 'rng \<Rightarrow> int \<times> 'rng) \<Rightarrow> cfg \<Rightarrow> 'rng \<Rightarrow> 'rng KD_recipe" where
  "KD_init set_seed c rng0 =
     (let (s, r) = set_seed (cfg_seed c) rng0
      in \<lparr> rng = r,
           seed = s,
           epochs_run = 0,
           total_epochs = cfg_epochs c,
           max_steps_per_epoch = cfg_max_steps_per_epoch c,
           global_step = 0,
           resume_from_checkpoint = cfg_resume_from_checkpoint c,
           gradient_accumulation_steps = cfg_gradient_accumulation_steps c,
           save_every_n_steps = cfg_save_every_n_steps c,
           log_every_n_steps = (case cfg_log_every_n_steps c of None \<Rightarrow> 1 | Some n \<Rightarrow> n),
           steps_per_epoch = 0,
           checkpoint_dir_prefix = [],
           kd_ratio = (case cfg_kd_ratio c of None \<Rightarrow> 1 / 2 | Some k \<Rightarrow> k),
           clip_grad_norm = cfg_clip_grad_norm c \<rparr>)"

definition DPO_init :: "(int option \<Rightarrow> 'rng \<Rightarrow> int \<times> 'rng) \<Rightarrow> cfg \<Rightarrow> 'rng \<Rightarrow> 'rng recipe" where
  "DPO_init set_seed c rng0 =
     (let (s, r) = set_seed (cfg_seed c) rng0
      in \<lparr> rng = r,
           seed = s,
           epochs_run = 0,
           total_epochs = cfg_epochs c,
           max_steps_per_epoch = cfg_max_steps_per_epoch c,
           global_step = 0,
           resume_from_checkpoint = cfg_resume_from_checkpoint c,
           gradient_accumulation_steps = cfg_gradient_accumulation_steps c,
           save_every_n_steps = cfg_save_every_n_steps c,
           log_every_n_steps = (case cfg_log_every_n_steps c of None \<Rightarrow> 1 | Some n \<Rightarrow> n),
           steps_per_epoch = 0,
           checkpoint_dir_prefix = [] \<rparr>)"

subsection \<open>Restoring the recipe state from a checkpoint\<close>

text \<open>
  The three reconciliation blocks of \<^verbatim>\<open>_update_recipe_state\<close>, which are the same text
  in both recipes. Each returns the warnings it issues and the updated attributes.
\<close>

definition reconcile_seed ::
  "('rng, 'a) recipe_scheme \<Rightarrow> int \<Rightarrow> warning list \<times> ('rng, 'a) recipe_scheme" where
  "reconcile_seed self ck_seed =
     (if seed self \<noteq> ck_seed
      then ([SeedMismatch ck_seed], self\<lparr>seed := ck_seed\<rparr>)
      else ([], self))"

definition reconcile_max_steps ::
  "('rng, 'a) recipe_scheme \<Rightarrow> int option \<Rightarrow> warning list \<times> ('rng, 'a) recipe_scheme" where
  "reconcile_max_steps self ck_max =
     (if max_steps_per_epoch self \<noteq> ck_max
      then ([MaxStepsMismatch ck_max], self\<lparr>max_steps_per_epoch := ck_max\<rparr>)
      else ([], self))"

definition reconcile_total_epochs ::
  "('rng, 'a) recipe_scheme \<Rightarrow> int \<Rightarrow> warning list \<times> ('rng, 'a) recipe_scheme" where
  "reconcile_total_epochs self ck_total =
     (if total_epochs self \<noteq> ck_total
      then ([TotalEpochsMismatch (total_epochs self)], self)
      else ([], self))"

text \<open>
  \<^verbatim>\<open>KDRecipeSingleDevice._update_recipe_state\<close>. A lookup of an absent key raises
  \<^verbatim>\<open>KeyError\<close>, which the \<^verbatim>\<open>except\<close> clause raises again as a \<^verbatim>\<open>KeyError\<close>.
\<close>

definition KD_update_recipe_state ::
  "('rng, 'a) recipe_scheme \<Rightarrow> ckpt_dict \<Rightarrow> error + (warning list \<times> ('rng, 'a) recipe_scheme)" where
  "KD_update_recipe_state self ck =
     (case EPOCHS_KEY ck of None \<Rightarrow> Inl KeyError | Some e \<Rightarrow>
      case STEPS_KEY ck of None \<Rightarrow> Inl KeyError | Some g \<Rightarrow>
      case SEED_KEY ck of None \<Rightarrow> Inl KeyError | Some s \<Rightarrow>
      case MAX_STEPS_KEY ck of None \<Rightarrow> Inl KeyError | Some m \<Rightarrow>
      case TOTAL_EPOCHS_KEY ck of None \<Rightarrow> Inl KeyError | Some t \<Rightarrow>
        (let self1 = self\<lparr>epochs_run := e, global_step := g\<rparr>;
             (w1, self2) = reconcile_seed self1 s;
             (w2, self3) = reconcile_max_steps self2 m;
             (w3, self4) = reconcile_total_epochs self3 t
         in Inr (w1 @ w2 @ w3, self4)))"

text \<open>
  \<^verbatim>\<open>LoRADPORecipeSingleDevice._update_recipe_state\<close>: the same, except that it neither
  looks \<^verbatim>\<open>STEPS_KEY\<close> up nor assigns \<^verbatim>\<open>self.global_step\<close>.
\<close>

definition DPO_update_recipe_state ::
  "('rng, 'a) recipe_scheme \<Rightarrow> ckpt_dict \<Rightarrow> error + (warning list \<times> ('rng, 'a) recipe_scheme)" where
  "DPO_update_recipe_state self ck =
     (case EPOCHS_KEY ck of None \<Rightarrow> Inl KeyError | Some e \<Rightarrow>
      case SEED_KEY ck of None \<Rightarrow> Inl KeyError | Some s \<Rightarrow>
      case MAX_STEPS_KEY ck of None \<Rightarrow> Inl KeyError | Some m \<Rightarrow>
      case TOTAL_EPOCHS_KEY ck of None \<Rightarrow> Inl KeyError | Some t \<Rightarrow>
        (let self1 = self\<lparr>epochs_run := e\<rparr>;
             (w1, self2) = reconcile_seed self1 s;
             (w2, self3) = reconcile_max_steps self2 m;
             (w3, self4) = reconcile_total_epochs self3 t
         in Inr (w1 @ w2 @ w3, self4)))"

subsection \<open>Setup: the schedule\<close>

text \<open>
  The part of \<^verbatim>\<open>setup\<close> that restores the recipe state and derives the schedule; the
  models, tokenizer, optimizer, losses and data loader are built by collaborators.
  \<open>len_dataloader\<close> is \<^verbatim>\<open>len(self._dataloader)\<close> and \<open>ck\<close> the checkpoint dictionary in
  effect. The two recipes' texts differ only in the \<^verbatim>\<open>_update_recipe_state\<close> they call.
  When resuming on an epoch boundary the source also drains the data loader once
  (\<^verbatim>\<open>list(self._dataloader)\<close>); of that statement the model keeps the remainder it
  computes, which raises for a schedule of zero steps.
\<close>

definition schedule ::
  "('rng, 'a) recipe_scheme \<Rightarrow> int \<Rightarrow> error + ('rng, 'a) recipe_scheme" where
  "schedule self len_dataloader =
     (if gradient_accumulation_steps self = 0 then Inl ZeroDivisionError
      else
        let self1 = self\<lparr>steps_per_epoch := len_dataloader div gradient_accumulation_steps self\<rparr>;
            self2 = (case max_steps_per_epoch self1 of
                       None \<Rightarrow> self1
                     | Some m \<Rightarrow>
                         if m < steps_per_epoch self1
                         then self1\<lparr>steps_per_epoch := m, global_step := epochs_run self1 * m\<rparr>
                         else self1);
            self3 = (case save_every_n_steps self2 of
                       None \<Rightarrow> self2\<lparr>save_every_n_steps := Some (steps_per_epoch self2),
                                     checkpoint_dir_prefix := ''epoch''\<rparr>
                     | Some n \<Rightarrow> self2\<lparr>checkpoint_dir_prefix := ''step''\<rparr>)
        in if resume_from_checkpoint self3 \<and> steps_per_epoch self3 = 0
           then Inl ZeroDivisionError
           else Inr self3)"

definition KD_setup ::
  "('rng, 'a) recipe_scheme \<Rightarrow> ckpt_dict \<Rightarrow> int \<Rightarrow> error + (warning list \<times> ('rng, 'a) recipe_scheme)" where
  "KD_setup self ck len_dataloader =
     (case (if resume_from_checkpoint self
            then (if \<not> ADAPTER_KEY ck then Inl ValueError else KD_update_recipe_state self ck)
            else Inr ([], self)) of
        Inl e \<Rightarrow> Inl e
      | Inr (ws, self1) \<Rightarrow>
          (case schedule self1 len_dataloader of
             Inl e \<Rightarrow> Inl e
           | Inr self2 \<Rightarrow> Inr (ws, self2)))"

definition DPO_setup ::
  "('rng, 'a) recipe_scheme \<Rightarrow> ckpt_dict \<Rightarrow> int \<Rightarrow> error + (warning list \<times> ('rng, 'a) recipe_scheme)" where
  "DPO_setup self ck len_dataloader =
     (case (if resume_from_checkpoint self
            then (if \<not> ADAPTER_KEY ck then Inl ValueError else DPO_update_recipe_state self ck)
            else Inr ([], self)) of
        Inl e \<Rightarrow> Inl e
      | Inr (ws, self1) \<Rightarrow>
          (case schedule self1 len_dataloader of
             Inl e \<Rightarrow> Inl e
           | Inr self2 \<Rightarrow> Inr (ws, self2)))"

subsection \<open>Collaborators and the state of the training loop\<close>

text \<open>
  What \<^verbatim>\<open>train\<close> keeps besides the attributes of \<^verbatim>\<open>self\<close>: its local \<^verbatim>\<open>num_tokens\<close>, the
  state \<open>weights\<close> of model, optimizer and scheduler, and the gradient \<open>grad\<close> accumulated
  on the trainable parameters by \<^verbatim>\<open>backward\<close> (one real stands for the gradient of every
  parameter, all being treated alike; a gradient set to \<^verbatim>\<open>None\<close> by \<^verbatim>\<open>zero_grad\<close> is \<open>0\<close>).
\<close>

record 'w locals =
  num_tokens :: nat
  weights :: 'w
  grad :: real

record 'w KD_locals = "'w locals" +
  running_class_loss :: real
  running_kd_loss :: real

record 'w DPO_locals = "'w locals" +
  running_loss :: real

text \<open>
  The collaborators of both loops: \<open>dataloader e\<close> is the sequence of batches that
  iterating \<^verbatim>\<open>self._dataloader\<close> yields after \<^verbatim>\<open>sampler.set_epoch(e)\<close>, and
  \<open>optimizer_step g w\<close> is the state after \<^verbatim>\<open>self._optimizer.step()\<close> on gradient \<open>g\<close>.
\<close>

record ('w, 'b) env =
  dataloader :: "int \<Rightarrow> 'b list"
  optimizer_step :: "real \<Rightarrow> 'w \<Rightarrow> 'w"

record KD_batch =
  tokens :: "int list list"
  labels :: "int list list"

text \<open>
  The distillation recipe's collaborators: \<open>loss_step w b\<close> is what \<^verbatim>\<open>_loss_step\<close> returns,
  the class loss and the distillation loss of batch \<open>b\<close> under the weights \<open>w\<close>;
  \<open>loss_grads w b\<close> are the gradients of these two losses, so that \<^verbatim>\<open>backward\<close> on their
  blend adds the same blend of the gradients; \<open>clip_grad_norm_inplace mx g\<close> is the gradient
  after \<^verbatim>\<open>torch.nn.utils.clip_grad_norm_\<close>; \<open>lr_scheduler_step\<close> is
  \<^verbatim>\<open>self._lr_scheduler.step()\<close>.
\<close>

record ('w, 'b) KD_env = "('w, 'b) env" +
  ignore_index :: int
  loss_step :: "'w \<Rightarrow> 'b \<Rightarrow> real \<times> real"
  loss_grads :: "'w \<Rightarrow> 'b \<Rightarrow> real \<times> real"
  clip_grad_norm_inplace :: "real \<Rightarrow> real \<Rightarrow> real"
  lr_scheduler_step :: "'w \<Rightarrow> 'w"

subsection \<open>The distillation recipe: checkpoints and the training loop\<close>

text \<open>\<^verbatim>\<open>KDRecipeSingleDevice.save_checkpoint\<close>.\<close>

definition KD_save_checkpoint :: "'rng KD_recipe \<Rightarrow> int \<Rightarrow> bool \<Rightarrow> error + event" where
  "KD_save_checkpoint self epoch full_tensors =
     (if steps_per_epoch self = 0 then Inl ZeroDivisionError
      else
        let training_progress_epoch =
              (if global_step self mod steps_per_epoch self = 0 then epoch + 1 else epoch)
        in Inr (SaveCheckpoint
                  \<lparr> tp_seed = seed self,
                    tp_epochs_run = training_progress_epoch,
                    tp_total_epochs = total_epochs self,
                    tp_max_steps_per_epoch = max_steps_per_epoch self \<rparr>
                  epoch full_tensors (Some (checkpoint_dir_prefix self))))"

text \<open>\<^verbatim>\<open>(batch["labels"] != self._loss_fn.ignore_index).sum()\<close>\<close>

definition current_num_tokens :: "int \<Rightarrow> KD_batch \<Rightarrow> nat" where
  "current_num_tokens ign b = length (filter (\<lambda>l. l \<noteq> ign) (concat (labels b)))"

text \<open>
  The body of \<^verbatim>\<open>if (idx + 1) % self._gradient_accumulation_steps == 0:\<close> in
  \<^verbatim>\<open>KDRecipeSingleDevice.train\<close>. Of the logged dictionary the three losses are kept
  (the learning rate, the throughput and the memory statistics are read from collaborators
  and the clock). Dividing by a token count of zero raises nothing in the program, whose
  quotient is then infinite or not a number, while the quotient here is \<open>0\<close>: what is
  proved of these quotients is proved for a positive token count.
\<close>

definition KD_optimizer_step ::
  "('w, KD_batch) KD_env \<Rightarrow> int \<Rightarrow> 'rng KD_recipe \<times> 'w KD_locals
     \<Rightarrow> error + (event list \<times> ('rng KD_recipe \<times> 'w KD_locals))" where
  "KD_optimizer_step E curr_epoch st =
     (let (self, loc) = st;
          c = 1 / real (num_tokens loc);
          g = grad loc * c;
          g' = (case clip_grad_norm self of None \<Rightarrow> g | Some mx \<Rightarrow> clip_grad_norm_inplace E mx g);
          w' = lr_scheduler_step E (optimizer_step E g' (weights loc));
          self' = self\<lparr>global_step := global_step self + 1\<rparr>;
          class_loss_to_log = running_class_loss loc / real (num_tokens loc);
          kd_loss_to_log = running_kd_loss loc / real (num_tokens loc);
          loss_to_log = (1 - kd_ratio self) * class_loss_to_log + kd_ratio self * kd_loss_to_log;
          loc' = loc\<lparr>num_tokens := 0, weights := w', grad := 0,
                     running_class_loss := 0, running_kd_loss := 0\<rparr>
      in if log_every_n_steps self' = 0 then Inl ZeroDivisionError
         else
           let logs = (if global_step self' mod log_every_n_steps self' = 0
                       then [LogDict (global_step self')
                               [(''loss'', loss_to_log),
                                (''class_loss'', class_loss_to_log),
                                (''kd_loss'', kd_loss_to_log)]]
                       else [])
           in (case save_every_n_steps self' of
                 None \<Rightarrow> Inl TypeError
               | Some n \<Rightarrow>
                   if n = 0 then Inl ZeroDivisionError
                   else if global_step self' mod n = 0 \<and> curr_epoch \<noteq> total_epochs self' - 1
                   then (case KD_save_checkpoint self' curr_epoch False of
                           Inl e \<Rightarrow> Inl e
                         | Inr ev \<Rightarrow> Inr ([ScaleGrads c, OptimizerStep g'] @ logs @ [ev], (self', loc')))
                   else Inr ([ScaleGrads c, OptimizerStep g'] @ logs, (self', loc'))))"

text \<open>
  The first half of one iteration of \<^verbatim>\<open>for idx, batch in enumerate(self._dataloader)\<close>:
  the token count, \<^verbatim>\<open>_loss_step\<close>, the running sums and \<^verbatim>\<open>current_loss.backward()\<close>, whose
  gradient is \<open>KD_backward_grad\<close>.
\<close>

definition KD_backward_grad :: "('w, KD_batch) KD_env \<Rightarrow> 'rng KD_recipe \<Rightarrow> 'w \<Rightarrow> KD_batch \<Rightarrow> real" where
  "KD_backward_grad E self w batch =
     (let (g_class, g_kd) = loss_grads E w batch
      in (1 - kd_ratio self) * g_class + kd_ratio self * g_kd)"

definition KD_accumulate ::
  "('w, KD_batch) KD_env \<Rightarrow> 'rng KD_recipe \<Rightarrow> KD_batch \<Rightarrow> 'w KD_locals \<Rightarrow> 'w KD_locals" where
  "KD_accumulate E self batch loc =
     (let n = current_num_tokens (ignore_index E) batch;
          (class_loss, kd_loss) = loss_step E (weights loc) batch
      in loc\<lparr>num_tokens := num_tokens loc + n,
              grad := grad loc + KD_backward_grad E self (weights loc) batch,
              running_class_loss := running_class_loss loc + class_loss * real n,
              running_kd_loss := running_kd_loss loc + kd_loss * real n\<rparr>)"

text \<open>
  One iteration, up to the test that leaves the loop (the profiler and the memory
  recording are left out).
\<close>

definition KD_microbatch ::
  "('w, KD_batch) KD_env \<Rightarrow> int \<Rightarrow> int \<Rightarrow> KD_batch \<Rightarrow> 'rng KD_recipe \<times> 'w KD_locals
     \<Rightarrow> error + (event list \<times> ('rng KD_recipe \<times> 'w KD_locals))" where
  "KD_microbatch E curr_epoch idx batch st =
     (let (self, loc) = st;
          loc1 = KD_accumulate E self batch loc;
          ev = Backward (KD_backward_grad E self (weights loc) batch)
      in if gradient_accumulation_steps self = 0 then Inl ZeroDivisionError
         else if (idx + 1) mod gradient_accumulation_steps self = 0
         then (case KD_optimizer_step E curr_epoch (self, loc1) of
                 Inl e \<Rightarrow> Inl e
               | Inr (evs, st') \<Rightarrow> Inr (ev # evs, st'))
         else Inr ([ev], (self, loc1)))"

text \<open>
  The loop over the batches of one epoch, from index \<open>idx\<close> on. It is left after the
  iteration in which \<^verbatim>\<open>(idx + 1) // self._gradient_accumulation_steps\<close> equals
  \<^verbatim>\<open>self.max_steps_per_epoch\<close>; an integer never equals \<^verbatim>\<open>None\<close>.
\<close>

fun KD_batches ::
  "('w, KD_batch) KD_env \<Rightarrow> int \<Rightarrow> int \<Rightarrow> KD_batch list \<Rightarrow> 'rng KD_recipe \<times> 'w KD_locals
     \<Rightarrow> error + (event list \<times> ('rng KD_recipe \<times> 'w KD_locals))" where
  "KD_batches E curr_epoch idx [] st = Inr ([], st)"
| "KD_batches E curr_epoch idx (batch # rest) st =
     (case KD_microbatch E curr_epoch idx batch st of
        Inl e \<Rightarrow> Inl e
      | Inr (evs, st') \<Rightarrow>
          if Some ((idx + 1) div gradient_accumulation_steps (fst st')) = max_steps_per_epoch (fst st')
          then Inr (evs, st')
          else (case KD_batches E curr_epoch (idx + 1) rest st' of
                  Inl e \<Rightarrow> Inl e
                | Inr (evs', st'') \<Rightarrow> Inr (evs @ evs', st'')))"



subsection \<open>The preference recipe: forward passes, checkpoints and the training loop\<close>

text \<open>\<^verbatim>\<open>ChosenRejectedOutputs\<close>; a tensor is the list of its rows along the batch axis.\<close>

record 'lg ChosenRejectedOutputs =
  chosen_logps :: "real list"
  rejected_logps :: "real list"
  chosen_logits :: "'lg list"
  rejected_logits :: "'lg list"

text \<open>
  The context a forward pass runs in: whether the adapters are enabled (they are not inside
  \<^verbatim>\<open>disable_adapter(self._model)\<close>) and whether gradients are tracked (they are not inside
  \<^verbatim>\<open>torch.no_grad()\<close>).
\<close>

record fwd_ctx =
  adapters_enabled :: bool
  grad_enabled :: bool

text \<open>
  The preference recipe's collaborators: \<open>model ctx w ids\<close> are the logits of the batch
  \<open>ids\<close>, one row per sequence; \<open>get_batch_log_probs\<close> is the function of that name of
  \<^verbatim>\<open>torchtune.rlhf\<close>; \<open>loss_fn\<close> is \<^verbatim>\<open>self._loss_fn\<close>, which returns the losses and the
  rewards of the chosen and of the rejected sequences; \<open>loss_grad w b\<close> is the gradient of
  the mean loss of batch \<open>b\<close>; \<open>lr_scheduler\<close> is \<open>None\<close> when no scheduler is configured.
\<close>

record ('w, 'b, 'lg) DPO_env = "('w, 'b) env" +
  model :: "fwd_ctx \<Rightarrow> 'w \<Rightarrow> int list list \<Rightarrow> 'lg list"
  get_batch_log_probs :: "'lg list \<Rightarrow> int list list \<Rightarrow> real list"
  loss_fn :: "'lg ChosenRejectedOutputs \<Rightarrow> 'lg ChosenRejectedOutputs
                \<Rightarrow> real list \<times> real list \<times> real list"
  loss_grad :: "'w \<Rightarrow> 'b \<Rightarrow> real"
  lr_scheduler :: "('w \<Rightarrow> 'w) option"

text \<open>\<^verbatim>\<open>LoRADPORecipeSingleDevice.save_checkpoint\<close>, which passes no \<^verbatim>\<open>dir_prefix\<close>.\<close>

definition DPO_save_checkpoint :: "'rng recipe \<Rightarrow> int \<Rightarrow> bool \<Rightarrow> event" where
  "DPO_save_checkpoint self epoch full_tensors =
     SaveCheckpoint
       \<lparr> tp_seed = seed self,
         tp_epochs_run = epochs_run self,
         tp_total_epochs = total_epochs self,
         tp_max_steps_per_epoch = max_steps_per_epoch self \<rparr>
       epoch full_tensors None"

text \<open>
  \<^verbatim>\<open>LoRADPORecipeSingleDevice.concatenated_forward\<close>, in the context \<open>ctx\<close> of the call.
  \<^verbatim>\<open>shape[0]\<close> is the number of rows, \<^verbatim>\<open>t[:n]\<close> and \<^verbatim>\<open>t[n:]\<close> are \<open>take n\<close> and \<open>drop n\<close>.
  The function has no \<^verbatim>\<open>raise\<close> and no check of the batch size.
\<close>

definition concatenated_forward ::
  "('w, int list list \<times> int list list, 'lg) DPO_env \<Rightarrow> fwd_ctx \<Rightarrow> 'w
     \<Rightarrow> int list list \<times> int list list \<Rightarrow> 'lg ChosenRejectedOutputs" where
  "concatenated_forward E ctx w batch =
     (let (concatenated_input_ids, concatenated_labels) = batch;
          len_chosen = length concatenated_input_ids div 2;
          all_logits = model E ctx w concatenated_input_ids;
          all_log_probs = get_batch_log_probs E all_logits concatenated_labels
      in \<lparr> chosen_logps = take len_chosen all_log_probs,
           rejected_logps = drop len_chosen all_log_probs,
           chosen_logits = take len_chosen all_logits,
           rejected_logits = drop len_chosen all_logits \<rparr>)"

text \<open>
  \<^verbatim>\<open>t.mean()\<close> of a vector (of a vector that is not empty: the program's mean of an empty
  one is not a number), \<^verbatim>\<open>t.numel()\<close> of a matrix and \<^verbatim>\<open>(a > b).float()\<close> of two vectors
  of the same length.
\<close>

definition mean :: "real list \<Rightarrow> real" where
  "mean xs = sum_list xs / real (length xs)"

definition numel :: "int list list \<Rightarrow> nat" where
  "numel t = sum_list (map length t)"

definition gt_float :: "real list \<Rightarrow> real list \<Rightarrow> real list" where
  "gt_float a b = map (\<lambda>(x, y). if x > y then 1 else 0) (zip a b)"

text \<open>
  The two forward passes of one iteration: the policy pass, and the reference pass inside
  \<^verbatim>\<open>with torch.no_grad(), disable_adapter(self._model)\<close>, on the same model and batch.
\<close>

definition policy_ctx :: fwd_ctx where
  "policy_ctx = \<lparr> adapters_enabled = True, grad_enabled = True \<rparr>"

definition reference_ctx :: fwd_ctx where
  "reference_ctx = \<lparr> adapters_enabled = False, grad_enabled = False \<rparr>"

definition DPO_forward_passes ::
  "('w, int list list \<times> int list list, 'lg) DPO_env \<Rightarrow> 'w \<Rightarrow> int list list \<times> int list list
     \<Rightarrow> 'lg ChosenRejectedOutputs \<times> 'lg ChosenRejectedOutputs" where
  "DPO_forward_passes E w batch =
     (concatenated_forward E policy_ctx w batch, concatenated_forward E reference_ctx w batch)"

text \<open>
  The body of \<^verbatim>\<open>if (idx + 1) % self._gradient_accumulation_steps == 0:\<close> in
  \<^verbatim>\<open>LoRADPORecipeSingleDevice.train\<close>; \<open>metrics\<close> are the rewards and log-probabilities of
  the iteration's batch that the dictionary logs besides the loss (the learning rate, the
  throughput, the memory statistics and the mean logits are left out).
\<close>

definition DPO_optimizer_step ::
  "('w, int list list \<times> int list list, 'lg) DPO_env \<Rightarrow> int \<Rightarrow> (string \<times> real) list
     \<Rightarrow> 'rng recipe \<times> 'w DPO_locals
     \<Rightarrow> error + (event list \<times> ('rng recipe \<times> 'w DPO_locals))" where
  "DPO_optimizer_step E curr_epoch metrics st =
     (let (self, loc) = st;
          w1 = optimizer_step E (grad loc) (weights loc);
          w' = (case lr_scheduler E of None \<Rightarrow> w1 | Some step \<Rightarrow> step w1);
          self' = self\<lparr>global_step := global_step self + 1\<rparr>;
          loss_to_log = running_loss loc;
          loc' = loc\<lparr>num_tokens := 0, weights := w', grad := 0, running_loss := 0\<rparr>
      in if log_every_n_steps self' = 0 then Inl ZeroDivisionError
         else
           let logs = (if global_step self' mod log_every_n_steps self' = 0
                       then [LogDict (global_step self') ((''loss'', loss_to_log) # metrics)]
                       else [])
           in (case save_every_n_steps self' of
                 None \<Rightarrow> Inl TypeError
               | Some n \<Rightarrow>
                   if n = 0 then Inl ZeroDivisionError
                   else if global_step self' mod n = 0 \<and> curr_epoch \<noteq> total_epochs self' - 1
                   then Inr ([OptimizerStep (grad loc)] @ logs
                               @ [DPO_save_checkpoint self' curr_epoch False], (self', loc'))
                   else Inr ([OptimizerStep (grad loc)] @ logs, (self', loc'))))"

text \<open>
  The first half of one iteration of \<^verbatim>\<open>for idx, batch in enumerate(self._dataloader)\<close>,
  after the test that leaves the loop: the two forward passes and the loss function, which
  sees the policy's outputs with the logits deleted (\<open>DPO_loss_step\<close>); the metrics of the
  batch; the token count, the running loss and \<^verbatim>\<open>loss.backward()\<close> on the mean loss divided
  by the accumulation factor (\<open>DPO_accumulate\<close>).
\<close>

definition DPO_loss_step ::
  "('w, int list list \<times> int list list, 'lg) DPO_env \<Rightarrow> 'w \<Rightarrow> int list list \<times> int list list
     \<Rightarrow> 'lg ChosenRejectedOutputs \<times> real list \<times> real list \<times> real list" where
  "DPO_loss_step E w batch =
     (let (policy, reference) = DPO_forward_passes E w batch
      in (policy, loss_fn E (policy\<lparr>chosen_logits := [], rejected_logits := []\<rparr>) reference))"

definition DPO_metrics ::
  "('w, int list list \<times> int list list, 'lg) DPO_env \<Rightarrow> 'w \<Rightarrow> int list list \<times> int list list
     \<Rightarrow> (string \<times> real) list" where
  "DPO_metrics E w batch =
     (let (policy, loss, chosen_rewards, rejected_rewards) = DPO_loss_step E w batch;
          reward_accuracies = gt_float chosen_rewards rejected_rewards
      in [(''rewards/chosen'', mean chosen_rewards),
          (''rewards/rejected'', mean rejected_rewards),
          (''rewards/accuracies'', mean reward_accuracies),
          (''rewards/margins'', mean (map (\<lambda>(x, y). x - y) (zip chosen_rewards rejected_rewards))),
          (''log_probs/rejected'', mean (rejected_logps policy)),
          (''log_probs/chosen'', mean (chosen_logps policy))])"

definition DPO_backward_grad ::
  "('w, int list list \<times> int list list, 'lg) DPO_env \<Rightarrow> 'rng recipe \<Rightarrow> 'w
     \<Rightarrow> int list list \<times> int list list \<Rightarrow> real" where
  "DPO_backward_grad E self w batch =
     loss_grad E w batch / real_of_int (gradient_accumulation_steps self)"

definition DPO_accumulate ::
  "('w, int list list \<times> int list list, 'lg) DPO_env \<Rightarrow> 'rng recipe
     \<Rightarrow> int list list \<times> int list list \<Rightarrow> 'w DPO_locals \<Rightarrow> 'w DPO_locals" where
  "DPO_accumulate E self batch loc =
     (let (policy, loss, chosen_rewards, rejected_rewards) = DPO_loss_step E (weights loc) batch;
          loss' = mean loss / real_of_int (gradient_accumulation_steps self)
      in loc\<lparr>num_tokens := num_tokens loc + numel (fst batch),
              grad := grad loc + DPO_backward_grad E self (weights loc) batch,
              running_loss := running_loss loc + loss'\<rparr>)"

text \<open>One iteration after the test that leaves the loop.\<close>

definition DPO_microbatch ::
  "('w, int list list \<times> int list list, 'lg) DPO_env \<Rightarrow> int \<Rightarrow> int
     \<Rightarrow> int list list \<times> int list list \<Rightarrow> 'rng recipe \<times> 'w DPO_locals
     \<Rightarrow> error + (event list \<times> ('rng recipe \<times> 'w DPO_locals))" where
  "DPO_microbatch E curr_epoch idx batch st =
     (let (self, loc) = st;
          loc1 = DPO_accumulate E self batch loc;
          ev = Backward (DPO_backward_grad E self (weights loc) batch)
      in if gradient_accumulation_steps self = 0 then Inl ZeroDivisionError
         else if (idx + 1) mod gradient_accumulation_steps self = 0
         then (case DPO_optimizer_step E curr_epoch (DPO_metrics E (weights loc) batch) (self, loc1) of
                 Inl e \<Rightarrow> Inl e
               | Inr (evs, st') \<Rightarrow> Inr (ev # evs, st'))
         else Inr ([ev], (self, loc1)))"

text \<open>
  The loop over the batches of one epoch, from index \<open>idx\<close> on. The test that leaves the
  loop comes first in the body; \<^verbatim>\<open>and\<close> does not evaluate the division when
  \<^verbatim>\<open>self.max_steps_per_epoch\<close> is \<^verbatim>\<open>None\<close>.
\<close>

fun DPO_batches ::
  "('w, int list list \<times> int list list, 'lg) DPO_env \<Rightarrow> int \<Rightarrow> int
     \<Rightarrow> (int list list \<times> int list list) list \<Rightarrow> 'rng recipe \<times> 'w DPO_locals
     \<Rightarrow> error + (event list \<times> ('rng recipe \<times> 'w DPO_locals))" where
  "DPO_batches E curr_epoch idx [] st = Inr ([], st)"
| "DPO_batches E curr_epoch idx (batch # rest) st =
     (case max_steps_per_epoch (fst st) of
        Some m \<Rightarrow>
          if gradient_accumulation_steps (fst st) = 0 then Inl ZeroDivisionError
          else if idx div gradient_accumulation_steps (fst st) = m then Inr ([], st)
          else (case DPO_microbatch E curr_epoch idx batch st of
                  Inl e \<Rightarrow> Inl e
                | Inr (evs, st') \<Rightarrow>
                    (case DPO_batches E curr_epoch (idx + 1) rest st' of
                       Inl e \<Rightarrow> Inl e
                     | Inr (evs', st'') \<Rightarrow> Inr (evs @ evs', st'')))
      | None \<Rightarrow>
          (case DPO_microbatch E curr_epoch idx batch st of
             Inl e \<Rightarrow> Inl e
           | Inr (evs, st') \<Rightarrow>
               (case DPO_batches E curr_epoch (idx + 1) rest st' of
                  Inl e \<Rightarrow> Inl e
                | Inr (evs', st'') \<Rightarrow> Inr (evs @ evs', st''))))"

fun DPO_epochs ::
  "('w, int list list \<times> int list list, 'lg) DPO_env \<Rightarrow> int list \<Rightarrow> 'rng recipe \<times> 'w DPO_locals
     \<Rightarrow> error + (event list \<times> ('rng recipe \<times> 'w DPO_locals))" where
  "DPO_epochs E [] st = Inr ([], st)"
| "DPO_epochs E (curr_epoch # rest) st =
     (case DPO_batches E curr_epoch 0 (dataloader E curr_epoch) st of
        Inl e \<Rightarrow> Inl e
      | Inr (evs, (self, loc)) \<Rightarrow>
          (case DPO_epochs E rest (self\<lparr>epochs_run := epochs_run self + 1\<rparr>, loc) of
             Inl e \<Rightarrow> Inl e
           | Inr (evs', st'') \<Rightarrow> Inr (evs @ evs', st'')))"

text \<open>\<^verbatim>\<open>LoRADPORecipeSingleDevice.train\<close>, started on the weights \<open>w0\<close> that \<^verbatim>\<open>setup\<close> built.\<close>

definition DPO_train ::
  "('w, int list list \<times> int list list, 'lg) DPO_env \<Rightarrow> 'rng recipe \<Rightarrow> 'w
     \<Rightarrow> error + (event list \<times> ('rng recipe \<times> 'w DPO_locals))" where
  "DPO_train E self w0 =
     (let loc0 = \<lparr> num_tokens = 0, weights = w0, grad = 0, running_loss = 0 \<rparr>;
          epochs = [epochs_run self .. total_epochs self - 1]
      in case DPO_epochs E epochs (self, loc0) of
           Inl e \<Rightarrow> Inl e
         | Inr (evs, (self', loc')) \<Rightarrow>
             if epochs = [] then Inl UnboundLocalError
             else Inr (evs @ [DPO_save_checkpoint self' (last epochs) True], (self', loc')))"

subsection \<open>Concrete configurations and collaborators\<close>

text \<open>
  Small closed instances on which the recipes are run: a seeding function that records the
  seed it was given as the generators' state, a configuration that asks to resume, and a
  checkpoint whose every value differs from the configuration's.
\<close>

definition ex_set_seed :: "int option \<Rightarrow> int option \<Rightarrow> int \<times> int option" where
  "ex_set_seed s r = (case s of None \<Rightarrow> (42, Some 42) | Some n \<Rightarrow> (n, Some n))"

definition ex_cfg :: cfg where
  "ex_cfg =
     \<lparr> cfg_seed = Some 1, cfg_epochs = 2, cfg_max_steps_per_epoch = Some 20,
       cfg_resume_from_checkpoint = True, cfg_gradient_accumulation_steps = 2,
       cfg_save_every_n_steps = None, cfg_log_every_n_steps = None,
       cfg_kd_ratio = None, cfg_clip_grad_norm = None \<rparr>"

definition ex_ckpt :: ckpt_dict where
  "ex_ckpt =
     \<lparr> ADAPTER_KEY = True, EPOCHS_KEY = Some 1, STEPS_KEY = Some 13, SEED_KEY = Some 7,
       MAX_STEPS_KEY = Some (Some 10), TOTAL_EPOCHS_KEY = Some 3 \<rparr>"

text \<open>
  Recipes as \<^verbatim>\<open>setup\<close> leaves them, for two epochs of two steps each with a checkpoint
  every two steps, and collaborators of the preference recipe that compute with integers:
  two batches of two sequences per epoch, and a loss function that returns the rewards
  \<open>[2, 1]\<close> for the chosen and \<open>[0, 3]\<close> for the rejected sequences.
\<close>

definition ex_recipe :: "unit recipe" where
  "ex_recipe =
     \<lparr> rng = (), seed = 1, epochs_run = 0, total_epochs = 2, max_steps_per_epoch = None,
       global_step = 0, resume_from_checkpoint = False, gradient_accumulation_steps = 1,
       save_every_n_steps = Some 2, log_every_n_steps = 1, steps_per_epoch = 2,
       checkpoint_dir_prefix = ''epoch'' \<rparr>"

definition ex_KD_recipe :: "unit KD_recipe" where
  "ex_KD_recipe =
     \<lparr> rng = (), seed = 1, epochs_run = 0, total_epochs = 2, max_steps_per_epoch = None,
       global_step = 0, resume_from_checkpoint = False, gradient_accumulation_steps = 1,
       save_every_n_steps = Some 2, log_every_n_steps = 1, steps_per_epoch = 2,
       checkpoint_dir_prefix = ''epoch'', kd_ratio = 1 / 2, clip_grad_norm = None \<rparr>"

definition ex_DPO_env :: "(int, int list list \<times> int list list, int) DPO_env" where
  "ex_DPO_env =
     \<lparr> dataloader = (\<lambda>e. [([[1, 2], [3, 4]], [[1, 2], [3, 4]]), ([[5, 6], [7, 8]], [[5, 6], [7, 8]])]),
       optimizer_step = (\<lambda>g w. w + 1),
       model = (\<lambda>ctx w ids. map (\<lambda>row. sum_list row + (if adapters_enabled ctx then w else 0)) ids),
       get_batch_log_probs = (\<lambda>lg labs. map (\<lambda>x. - real_of_int x) lg),
       loss_fn = (\<lambda>p r. ([1, 3], [2, 1], [0, 3])),
       loss_grad = (\<lambda>w b. 1),
       lr_scheduler = None \<rparr>"

text \<open>
  Collaborators of the distillation recipe: two batches per epoch, the first with two and
  the second with three labels that are not ignored, and losses that depend on the batch.
\<close>

definition ex_KD_env :: "(int, KD_batch) KD_env" where
  "ex_KD_env =
     \<lparr> dataloader = (\<lambda>e. [\<lparr>tokens = [[1, 2, 3]], labels = [[2, 3, - 100]]\<rparr>,
                           \<lparr>tokens = [[4, 5, 6]], labels = [[5, 6, 7]]\<rparr>]),
       optimizer_step = (\<lambda>g w. w + 1),
       ignore_index = - 100,
       loss_step = (\<lambda>w b. (real_of_int (hd (hd (tokens b))), 2 * real_of_int (hd (hd (tokens b))))),
       loss_grads = (\<lambda>w b. (1, 3)),
       clip_grad_norm_inplace = (\<lambda>mx g. g),
       lr_scheduler_step = (\<lambda>w. w) \<rparr>"



section \<open>Properties\<close>

subsection \<open>What a successful restore and a successful schedule computation return\<close>

lemma KD_update_recipe_state_Inr:
  assumes "KD_update_recipe_state self ck = Inr (ws, self')"
  shows "\<exists>e g s m t. EPOCHS_KEY ck = Some e \<and> STEPS_KEY ck = Some g \<and> SEED_KEY ck = Some s
           \<and> MAX_STEPS_KEY ck = Some m \<and> TOTAL_EPOCHS_KEY ck = Some t
           \<and> self' = self\<lparr>epochs_run := e, global_step := g, seed := s, max_steps_per_epoch := m\<rparr>"
  using assms
  by (auto simp: KD_update_recipe_state_def reconcile_seed_def reconcile_max_steps_def
      reconcile_total_epochs_def Let_def split: option.splits if_splits)

lemma DPO_update_recipe_state_Inr:
  assumes "DPO_update_recipe_state self ck = Inr (ws, self')"
  shows "\<exists>e s m t. EPOCHS_KEY ck = Some e \<and> SEED_KEY ck = Some s
           \<and> MAX_STEPS_KEY ck = Some m \<and> TOTAL_EPOCHS_KEY ck = Some t
           \<and> self' = self\<lparr>epochs_run := e, seed := s, max_steps_per_epoch := m\<rparr>"
  using assms
  by (auto simp: DPO_update_recipe_state_def reconcile_seed_def reconcile_max_steps_def
      reconcile_total_epochs_def Let_def split: option.splits if_splits)

lemma schedule_Inr:
  assumes "schedule self L = Inr self'"
  shows "gradient_accumulation_steps self \<noteq> 0 \<and>
     self' = self\<lparr>steps_per_epoch :=
                    (case max_steps_per_epoch self of
                       None \<Rightarrow> L div gradient_accumulation_steps self
                     | Some m \<Rightarrow> if m < L div gradient_accumulation_steps self then m
                                 else L div gradient_accumulation_steps self),
                 global_step :=
                    (case max_steps_per_epoch self of
                       None \<Rightarrow> global_step self
                     | Some m \<Rightarrow> if m < L div gradient_accumulation_steps self
                                 then epochs_run self * m else global_step self),
                 save_every_n_steps :=
                    (case save_every_n_steps self of
                       None \<Rightarrow> Some (case max_steps_per_epoch self of
                                       None \<Rightarrow> L div gradient_accumulation_steps self
                                     | Some m \<Rightarrow> if m < L div gradient_accumulation_steps self then m
                                                 else L div gradient_accumulation_steps self)
                     | Some n \<Rightarrow> Some n),
                 checkpoint_dir_prefix :=
                    (case save_every_n_steps self of None \<Rightarrow> ''epoch'' | Some n \<Rightarrow> ''step'')\<rparr>"
  using assms
  by (auto simp: schedule_def Let_def split: option.splits if_splits)

subsection \<open>Resuming\<close>

text \<open>
  Claim C1 says that on resuming both recipes take \<open>epochs_run\<close> and \<open>global_step\<close> from the
  checkpoint, \<open>seed\<close> and \<open>max_steps_per_epoch\<close> from the checkpoint with a warning, and keep
  the configured \<open>total_epochs\<close> with a warning. The distillation recipe does. The
  preference recipe does all of it except for \<open>global_step\<close>: on the checkpoint \<open>ex_ckpt\<close>,
  which records 13 steps, the distillation recipe resumes at step 13 and the preference
  recipe at step 0, the constructor's value.
\<close>

theorem DPO_resume_leaves_global_step:
  "KD_update_recipe_state (KD_init ex_set_seed ex_cfg None) ex_ckpt
     = Inr ([SeedMismatch 7, MaxStepsMismatch (Some 10), TotalEpochsMismatch 2],
            (KD_init ex_set_seed ex_cfg None)
              \<lparr>epochs_run := 1, global_step := 13, seed := 7, max_steps_per_epoch := Some 10\<rparr>)
   \<and> DPO_update_recipe_state (DPO_init ex_set_seed ex_cfg None) ex_ckpt
     = Inr ([SeedMismatch 7, MaxStepsMismatch (Some 10), TotalEpochsMismatch 2],
            (DPO_init ex_set_seed ex_cfg None)
              \<lparr>epochs_run := 1, global_step := 0, seed := 7, max_steps_per_epoch := Some 10\<rparr>)"
  by (simp add: KD_update_recipe_state_def DPO_update_recipe_state_def KD_init_def DPO_init_def
      ex_set_seed_def ex_cfg_def ex_ckpt_def reconcile_seed_def reconcile_max_steps_def
      reconcile_total_epochs_def)

text \<open>
  Claim C9: the seed reconciliation of \<^verbatim>\<open>_update_recipe_state\<close> assigns the attribute
  \<open>seed\<close> and nothing else; after a restore, in either recipe, the recorded seed is the
  checkpoint's while the generators are still as the constructor's one call of
  \<^verbatim>\<open>training.set_seed\<close> on the configured seed left them.
\<close>

theorem seed_reconciliation_frame:
  "snd (reconcile_seed self s) = self\<lparr>seed := s\<rparr>
   \<and> (\<forall>ws self'. KD_update_recipe_state (KD_init set_seed c r0) ck = Inr (ws, self') \<longrightarrow>
         SEED_KEY ck = Some (seed self') \<and> rng self' = snd (set_seed (cfg_seed c) r0))
   \<and> (\<forall>ws self'. DPO_update_recipe_state (DPO_init set_seed c r0) ck = Inr (ws, self') \<longrightarrow>
         SEED_KEY ck = Some (seed self') \<and> rng self' = snd (set_seed (cfg_seed c) r0))"
  by (auto simp: reconcile_seed_def KD_init_def DPO_init_def split: prod.splits
      dest!: KD_update_recipe_state_Inr DPO_update_recipe_state_Inr)

theorem seed_reconciliation_frame_witness:
  "(\<exists>ws self'. KD_update_recipe_state (KD_init ex_set_seed ex_cfg None) ex_ckpt = Inr (ws, self')
        \<and> seed self' = 7 \<and> rng self' = Some 1)
   \<and> (\<exists>ws self'. DPO_update_recipe_state (DPO_init ex_set_seed ex_cfg None) ex_ckpt = Inr (ws, self')
        \<and> seed self' = 7 \<and> rng self' = Some 1)"
  using seed_reconciliation_frame [of "KD_init ex_set_seed ex_cfg None" 7 ex_set_seed ex_cfg None ex_ckpt]
  by (simp add: KD_update_recipe_state_def DPO_update_recipe_state_def KD_init_def DPO_init_def
      ex_set_seed_def ex_cfg_def ex_ckpt_def reconcile_seed_def reconcile_max_steps_def
      reconcile_total_epochs_def)

subsection \<open>The schedule\<close>

text \<open>
  Claim C2: for a positive accumulation factor \<open>A\<close> and a data loader of length \<open>L\<close>,
  \<^verbatim>\<open>setup\<close> of either recipe leaves \<open>steps_per_epoch = L div A\<close>, unless
  \<open>max_steps_per_epoch\<close> is some \<open>M < L div A\<close>, in which case it leaves
  \<open>steps_per_epoch = M\<close> and \<open>global_step = epochs_run * M\<close>, whatever step count was held
  before. Without resuming \<^verbatim>\<open>setup\<close> always gets that far.
\<close>

theorem setup_steps_per_epoch:
  assumes "0 < gradient_accumulation_steps self"
  shows "(\<not> resume_from_checkpoint self \<longrightarrow>
            (\<exists>s'. KD_setup self ck L = Inr ([], s')) \<and> (\<exists>s'. DPO_setup self ck L = Inr ([], s')))
       \<and> (\<forall>ws s'. KD_setup self ck L = Inr (ws, s') \<or> DPO_setup self ck L = Inr (ws, s') \<longrightarrow>
            (case max_steps_per_epoch s' of
               None \<Rightarrow> steps_per_epoch s' = L div gradient_accumulation_steps self
             | Some M \<Rightarrow>
                 if M < L div gradient_accumulation_steps self
                 then steps_per_epoch s' = M \<and> global_step s' = epochs_run s' * M
                 else steps_per_epoch s' = L div gradient_accumulation_steps self))"
proof (intro conjI impI allI)
  assume "\<not> resume_from_checkpoint self"
  with assms show "\<exists>s'. KD_setup self ck L = Inr ([], s')"
    by (simp add: KD_setup_def schedule_def Let_def split: option.splits)
next
  assume "\<not> resume_from_checkpoint self"
  with assms show "\<exists>s'. DPO_setup self ck L = Inr ([], s')"
    by (simp add: DPO_setup_def schedule_def Let_def split: option.splits)
next
  fix ws s'
  assume "KD_setup self ck L = Inr (ws, s') \<or> DPO_setup self ck L = Inr (ws, s')"
  then obtain s1 where s1: "schedule s1 L = Inr s'"
    and A: "gradient_accumulation_steps s1 = gradient_accumulation_steps self"
    by (auto simp: KD_setup_def DPO_setup_def split: if_splits sum.splits
        dest!: KD_update_recipe_state_Inr DPO_update_recipe_state_Inr)
  from schedule_Inr[OF s1] A show "case max_steps_per_epoch s' of
               None \<Rightarrow> steps_per_epoch s' = L div gradient_accumulation_steps self
             | Some M \<Rightarrow>
                 if M < L div gradient_accumulation_steps self
                 then steps_per_epoch s' = M \<and> global_step s' = epochs_run s' * M
                 else steps_per_epoch s' = L div gradient_accumulation_steps self"
    by (auto split: option.splits)
qed

theorem setup_steps_per_epoch_witness:
  "0 < gradient_accumulation_steps (KD_init ex_set_seed ex_cfg None)
   \<and> (\<exists>ws s'. KD_setup (KD_init ex_set_seed ex_cfg None) ex_ckpt 100 = Inr (ws, s')
         \<and> max_steps_per_epoch s' = Some 10 \<and> steps_per_epoch s' = 10
         \<and> epochs_run s' = 1 \<and> global_step s' = 10)
   \<and> (\<exists>s'. KD_setup ((KD_init ex_set_seed ex_cfg None)\<lparr>resume_from_checkpoint := False\<rparr>) ex_ckpt 15
               = Inr ([], s')
         \<and> max_steps_per_epoch s' = Some 20 \<and> steps_per_epoch s' = 7)"
proof -
  have A: "0 < gradient_accumulation_steps (KD_init ex_set_seed ex_cfg None)"
    by (simp add: KD_init_def ex_set_seed_def ex_cfg_def)
  show ?thesis
    using A setup_steps_per_epoch [OF A, of ex_ckpt 100]
    by (simp add: KD_setup_def schedule_def KD_update_recipe_state_def KD_init_def
        ex_set_seed_def ex_cfg_def ex_ckpt_def reconcile_seed_def reconcile_max_steps_def
        reconcile_total_epochs_def)
qed

subsection \<open>The preference recipe's forward passes\<close>

lemmas DPO_defs = DPO_train_def DPO_microbatch_def DPO_optimizer_step_def DPO_accumulate_def
  DPO_metrics_def DPO_loss_step_def DPO_forward_passes_def concatenated_forward_def
  DPO_save_checkpoint_def DPO_backward_grad_def policy_ctx_def reference_ctx_def



text \<open>
  Claim C10: \<^verbatim>\<open>concatenated_forward\<close> is a total function that checks nothing about the
  batch size. On a batch of \<open>2 * k + 1\<close> sequences, for which the model and
  \<^verbatim>\<open>get_batch_log_probs\<close> return one row per sequence, it returns \<open>k\<close> rows as chosen and
  \<open>k + 1\<close> rows as rejected, the first of these being the row of the middle sequence.
\<close>

theorem concatenated_forward_odd_batch:
  assumes "length ids = 2 * k + 1"
    and "length (model E ctx w ids) = length ids"
    and "length (get_batch_log_probs E (model E ctx w ids) labs) = length ids"
  shows "length (chosen_logits (concatenated_forward E ctx w (ids, labs))) = k
       \<and> length (rejected_logits (concatenated_forward E ctx w (ids, labs))) = k + 1
       \<and> hd (rejected_logits (concatenated_forward E ctx w (ids, labs))) = model E ctx w ids ! k
       \<and> length (chosen_logps (concatenated_forward E ctx w (ids, labs))) = k
       \<and> length (rejected_logps (concatenated_forward E ctx w (ids, labs))) = k + 1
       \<and> hd (rejected_logps (concatenated_forward E ctx w (ids, labs)))
           = get_batch_log_probs E (model E ctx w ids) labs ! k"
  using assms by (simp add: concatenated_forward_def Let_def hd_drop_conv_nth)

theorem concatenated_forward_odd_batch_witness:
  "length [[1, 2], [3, 4], [5, 6 :: int]] = 2 * 1 + 1
   \<and> concatenated_forward ex_DPO_env policy_ctx 0 ([[1, 2], [3, 4], [5, 6]], [[1, 2], [3, 4], [5, 6]])
     = \<lparr> chosen_logps = [- 3], rejected_logps = [- 7, - 11],
         chosen_logits = [3], rejected_logits = [7, 11] \<rparr>"
  using concatenated_forward_odd_batch
    [of "[[1, 2], [3, 4], [5, 6]]" 1 ex_DPO_env policy_ctx 0 "[[1, 2], [3, 4], [5, 6]]"]
  by (simp add: concatenated_forward_def ex_DPO_env_def policy_ctx_def)

subsection \<open>The progress a checkpoint records\<close>

lemma KD_save_checkpoint_progress:
  assumes "steps_per_epoch self \<noteq> 0"
  shows "KD_save_checkpoint self epoch ft =
     Inr (SaveCheckpoint
            \<lparr> tp_seed = seed self,
              tp_epochs_run = (if global_step self mod steps_per_epoch self = 0 then epoch + 1 else epoch),
              tp_total_epochs = total_epochs self,
              tp_max_steps_per_epoch = max_steps_per_epoch self \<rparr>
            epoch ft (Some (checkpoint_dir_prefix self)))"
  using assms by (simp add: KD_save_checkpoint_def)

text \<open>
  Claim C6 says that in both recipes the snapshot records the epoch count incremented by
  one when \<open>global_step\<close> is a multiple of \<open>steps_per_epoch\<close>. The distillation recipe does
  (\<open>KD_save_checkpoint_progress\<close>). The preference recipe records \<open>self.epochs_run\<close> as it
  is: in the run of \<open>ex_recipe\<close> (two epochs of two steps) the checkpoint after step 2, the
  last step of epoch 0, records \<open>epochs_run = 0\<close>, where the distillation recipe's
  \<^verbatim>\<open>save_checkpoint\<close> records \<open>1\<close> in the same state.
\<close>

theorem DPO_checkpoint_on_epoch_boundary:
  "global_step (ex_recipe\<lparr>global_step := 2\<rparr>) mod steps_per_epoch (ex_recipe\<lparr>global_step := 2\<rparr>) = 0
   \<and> DPO_save_checkpoint (ex_recipe\<lparr>global_step := 2\<rparr>) 0 False
       = SaveCheckpoint \<lparr>tp_seed = 1, tp_epochs_run = 0, tp_total_epochs = 2,
                          tp_max_steps_per_epoch = None\<rparr> 0 False None
   \<and> (\<exists>evs st. DPO_train ex_DPO_env ex_recipe 0 = Inr (evs, st)
         \<and> evs ! 6 = DPO_save_checkpoint (ex_recipe\<lparr>global_step := 2\<rparr>) 0 False)
   \<and> KD_save_checkpoint (ex_KD_recipe\<lparr>global_step := 2\<rparr>) 0 False
       = Inr (SaveCheckpoint \<lparr>tp_seed = 1, tp_epochs_run = 1, tp_total_epochs = 2,
                               tp_max_steps_per_epoch = None\<rparr> 0 False (Some ''epoch''))"
  by (simp add: DPO_defs ex_recipe_def ex_KD_recipe_def ex_DPO_env_def upto.simps
      KD_save_checkpoint_def Let_def)

subsection \<open>The distillation loop: it returns, and what its checkpoints are\<close>

text \<open>
  The loop divides by the accumulation factor, by \<open>log_every_n_steps\<close>, by
  \<open>save_every_n_steps\<close> and, in \<^verbatim>\<open>save_checkpoint\<close>, by \<open>steps_per_epoch\<close>. When none of them
  is zero every iteration returns, changes no attribute but \<open>global_step\<close>, and emits
  adapter-only checkpoints only.
\<close>

lemma KD_accumulate_weights [simp]: "weights (KD_accumulate E self b loc) = weights loc"
  by (simp add: KD_accumulate_def Let_def split: prod.splits)

lemma fold_KD_accumulate_weights [simp]:
  "weights (fold (KD_accumulate E self) bs loc) = weights loc"
  by (induction bs arbitrary: loc) simp_all

text \<open>The optimizer step: what it returns when no divisor is zero.\<close>

lemma KD_optimizer_step_Inr:
  assumes "log_every_n_steps self \<noteq> 0" "save_every_n_steps self = Some n" "n \<noteq> 0"
    "steps_per_epoch self \<noteq> 0"
  shows "\<exists>evs loc'. KD_optimizer_step E e (self, loc)
            = Inr (ScaleGrads (1 / real (num_tokens loc)) # evs,
                   (self\<lparr>global_step := global_step self + 1\<rparr>, loc'))
          \<and> length (filter is_OptimizerStep evs) = 1
          \<and> filter is_Backward evs = []
          \<and> (\<forall>ev \<in> set evs. is_SaveCheckpoint ev \<longrightarrow> \<not> ckpt_full_tensors ev)
          \<and> ((\<exists>ev \<in> set evs. is_SaveCheckpoint ev)
               \<longleftrightarrow> (global_step self + 1) mod n = 0 \<and> e \<noteq> total_epochs self - 1)
          \<and> num_tokens loc' = 0 \<and> grad loc' = 0
          \<and> running_class_loss loc' = 0 \<and> running_kd_loss loc' = 0"
  using assms
  by (auto simp: KD_optimizer_step_def KD_save_checkpoint_def Let_def)










subsection \<open>Accumulation windows of the distillation loop\<close>

text \<open>
  Indices within the window that starts at a multiple of the accumulation factor \<open>A\<close>.
\<close>

lemma window_index:
  assumes "0 < (A::int)" "idx mod A = 0" "0 \<le> k" "k < A"
  shows "(idx + k) mod A = k" "(idx + k) div A = idx div A"
proof -
  from assms(2) obtain q where q: "idx = A * q" by (auto simp: mod_eq_0_iff_dvd)
  from assms show "(idx + k) mod A = k" by (simp add: q)
  from assms show "(idx + k) div A = idx div A" by (simp add: q)
qed

lemma window_next:
  assumes "0 < (A::int)" "idx mod A = 0"
  shows "(idx + A) mod A = 0" "(idx + A) div A = idx div A + 1"
  using assms by simp_all

text \<open>
  Iterations that do not complete a window only accumulate: they emit their \<^verbatim>\<open>backward\<close>
  and leave the attributes alone. The iteration that completes a window runs the optimizer
  step on what the window's iterations accumulated, after which the loop is left if the
  cap is reached; a capped epoch is a sequence of such windows.
\<close>

lemma KD_accumulate_global_step [simp]:
  "KD_accumulate E (self\<lparr>global_step := g\<rparr>) = KD_accumulate E self"
  by (rule ext, rule ext) (simp add: KD_accumulate_def KD_backward_grad_def)

lemma KD_backward_grad_global_step [simp]:
  "KD_backward_grad E (self\<lparr>global_step := g\<rparr>) = KD_backward_grad E self"
  by (rule ext, rule ext) (simp add: KD_backward_grad_def)


lemma KD_batches_accumulate:
  assumes "gradient_accumulation_steps self \<noteq> 0"
    and "\<forall>j < length bs. (idx + 1 + int j) mod gradient_accumulation_steps self \<noteq> 0"
    and "\<forall>j < length bs. Some ((idx + 1 + int j) div gradient_accumulation_steps self)
                            \<noteq> max_steps_per_epoch self"
  shows "KD_batches E e idx (bs @ rest) (self, loc) =
     (case KD_batches E e (idx + int (length bs)) rest (self, fold (KD_accumulate E self) bs loc) of
        Inl err \<Rightarrow> Inl err
      | Inr (evs, st') \<Rightarrow>
          Inr (map (\<lambda>b. Backward (KD_backward_grad E self (weights loc) b)) bs @ evs, st'))"
  using assms
proof (induction bs arbitrary: idx loc)
  case Nil
  show ?case by (simp split: sum.splits)
next
  case (Cons b bs)
  from Cons.prems(2) have m0: "(idx + 1) mod gradient_accumulation_steps self \<noteq> 0"
    by (auto dest: spec[of _ 0])
  from Cons.prems(3) have d0: "Some ((idx + 1) div gradient_accumulation_steps self) \<noteq> max_steps_per_epoch self"
    by (auto dest: spec[of _ 0])
  have mb: "KD_microbatch E e idx b (self, loc)
      = Inr ([Backward (KD_backward_grad E self (weights loc) b)], (self, KD_accumulate E self b loc))"
    using Cons.prems(1) m0 by (simp add: KD_microbatch_def Let_def)
  have p2: "\<forall>j < length bs. (idx + 1 + 1 + int j) mod gradient_accumulation_steps self \<noteq> 0"
  proof (intro allI impI)
    fix j assume "j < length bs"
    then have "Suc j < length (b # bs)" by simp
    from Cons.prems(2)[rule_format, OF this]
    show "(idx + 1 + 1 + int j) mod gradient_accumulation_steps self \<noteq> 0"
      by (simp add: algebra_simps)
  qed
  have p3: "\<forall>j < length bs. Some ((idx + 1 + 1 + int j) div gradient_accumulation_steps self)
                            \<noteq> max_steps_per_epoch self"
  proof (intro allI impI)
    fix j assume "j < length bs"
    then have "Suc j < length (b # bs)" by simp
    from Cons.prems(3)[rule_format, OF this]
    show "Some ((idx + 1 + 1 + int j) div gradient_accumulation_steps self) \<noteq> max_steps_per_epoch self"
      by (simp add: algebra_simps)
  qed
  have ix: "idx + 1 + int (length bs) = idx + int (length (b # bs))" by simp
  show ?case
    using mb d0 Cons.IH[OF Cons.prems(1) p2 p3, of "KD_accumulate E self b loc"]
    unfolding ix
    by (simp split: sum.splits prod.splits)
qed


lemma KD_optimizer_step_self:
  assumes "KD_optimizer_step E e (self, loc) = Inr (evs, st')"
  shows "fst st' = self\<lparr>global_step := global_step self + 1\<rparr>"
  using assms
  by (auto simp: KD_optimizer_step_def Let_def split: if_splits option.splits sum.splits)

lemma KD_batches_window:
  assumes A: "0 < gradient_accumulation_steps self"
    and idx: "idx mod gradient_accumulation_steps self = 0"
    and len: "int (length win) = gradient_accumulation_steps self"
    and cap: "max_steps_per_epoch self \<noteq> Some (idx div gradient_accumulation_steps self)"
    and step: "KD_optimizer_step E e (self, fold (KD_accumulate E self) win loc) = Inr (evs, st')"
  shows "KD_batches E e idx (win @ rest) (self, loc) =
     (if Some (idx div gradient_accumulation_steps self + 1) = max_steps_per_epoch self
      then Inr (map (\<lambda>b. Backward (KD_backward_grad E self (weights loc) b)) win @ evs, st')
      else (case KD_batches E e (idx + gradient_accumulation_steps self) rest st' of
              Inl err \<Rightarrow> Inl err
            | Inr (evs', st'') \<Rightarrow>
                Inr (map (\<lambda>b. Backward (KD_backward_grad E self (weights loc) b)) win
                       @ evs @ evs', st'')))"
proof -
  let ?A = "gradient_accumulation_steps self"
  from A len have ne: "win \<noteq> []" by auto
  define xs where "xs = butlast win"
  define b where "b = last win"
  from ne have win: "win = xs @ [b]" by (simp add: xs_def b_def)
  from len win have lx: "int (length xs) + 1 = ?A" by simp
  have c1: "\<forall>j < length xs. (idx + 1 + int j) mod ?A \<noteq> 0"
  proof (intro allI impI)
    fix j assume "j < length xs"
    with lx have "0 \<le> 1 + int j" "1 + int j < ?A" by auto
    from window_index(1)[OF A idx this] show "(idx + 1 + int j) mod ?A \<noteq> 0"
      by (simp add: add.assoc)
  qed
  have c2: "\<forall>j < length xs. Some ((idx + 1 + int j) div ?A) \<noteq> max_steps_per_epoch self"
  proof (intro allI impI)
    fix j assume "j < length xs"
    with lx have "0 \<le> 1 + int j" "1 + int j < ?A" by auto
    from window_index(2)[OF A idx this] cap
    show "Some ((idx + 1 + int j) div ?A) \<noteq> max_steps_per_epoch self"
      by (simp add: add.assoc)
  qed
  from A have A0: "?A \<noteq> 0" by simp
  have ix: "idx + int (length xs) + 1 = idx + ?A" using lx by simp
  have fo: "KD_accumulate E self b (fold (KD_accumulate E self) xs loc)
              = fold (KD_accumulate E self) win loc"
    by (simp add: win)
  have mb: "KD_microbatch E e (idx + int (length xs)) b (self, fold (KD_accumulate E self) xs loc)
      = Inr (Backward (KD_backward_grad E self (weights loc) b) # evs, st')"
    using A0 window_next(1)[OF A idx] step
    by (simp add: KD_microbatch_def Let_def ix fo)
  from KD_optimizer_step_self[OF step]
  have st: "max_steps_per_epoch (fst st') = max_steps_per_epoch self"
    "gradient_accumulation_steps (fst st') = ?A"
    by simp_all
  have last: "KD_batches E e (idx + int (length xs)) (b # rest) (self, fold (KD_accumulate E self) xs loc) =
     (if Some (idx div ?A + 1) = max_steps_per_epoch self
      then Inr (Backward (KD_backward_grad E self (weights loc) b) # evs, st')
      else (case KD_batches E e (idx + ?A) rest st' of
              Inl err \<Rightarrow> Inl err
            | Inr (evs', st'') \<Rightarrow>
                Inr (Backward (KD_backward_grad E self (weights loc) b) # evs @ evs', st'')))"
    using mb st window_next(2)[OF A idx]
    by (simp add: ix split: sum.splits)
  have "KD_batches E e idx (win @ rest) (self, loc) = KD_batches E e idx (xs @ (b # rest)) (self, loc)"
    by (simp add: win)
  also have "\<dots> = (case KD_batches E e (idx + int (length xs)) (b # rest)
                            (self, fold (KD_accumulate E self) xs loc) of
        Inl err \<Rightarrow> Inl err
      | Inr (evs, st') \<Rightarrow>
          Inr (map (\<lambda>b. Backward (KD_backward_grad E self (weights loc) b)) xs @ evs, st'))"
    by (rule KD_batches_accumulate[OF A0 c1 c2])
  finally show ?thesis
    unfolding last by (simp add: win split: sum.splits)
qed


lemma KD_capped_windows:
  assumes "0 < gradient_accumulation_steps self" "log_every_n_steps self \<noteq> 0"
    "save_every_n_steps self = Some n" "n \<noteq> 0" "steps_per_epoch self \<noteq> 0"
    "max_steps_per_epoch self = Some M"
    and "idx mod gradient_accumulation_steps self = 0"
    and "idx div gradient_accumulation_steps self < M"
    and "(M - idx div gradient_accumulation_steps self) * gradient_accumulation_steps self
           \<le> int (length bs)"
  shows "\<exists>evs g loc'. KD_batches E e idx bs (self, loc) = Inr (evs, (self\<lparr>global_step := g\<rparr>, loc'))
          \<and> int (length (filter is_Backward evs))
              = (M - idx div gradient_accumulation_steps self) * gradient_accumulation_steps self
          \<and> int (length (filter is_OptimizerStep evs)) = M - idx div gradient_accumulation_steps self"
  using assms
proof (induction k \<equiv> "nat (M - idx div gradient_accumulation_steps self)" arbitrary: idx bs self loc)
  case 0
  then show ?case by simp
next
  case (Suc k)
  let ?A = "gradient_accumulation_steps self"
  let ?q = "idx div ?A"
  note A = Suc.prems(1) and wc = Suc.prems(2-5) and cap = Suc.prems(6)
    and idx = Suc.prems(7) and lt = Suc.prems(8) and len = Suc.prems(9)
  define win where "win = take (nat ?A) bs"
  define rest where "rest = drop (nat ?A) bs"
  have bs: "bs = win @ rest" by (simp add: win_def rest_def)
  from lt A have "1 * ?A \<le> (M - ?q) * ?A" by (intro mult_right_mono) auto
  with len have Ale: "?A \<le> int (length bs)" by simp
  with A have lw: "int (length win) = ?A" by (auto simp add: win_def min_def)
  from Ale A have lr: "int (length rest) = int (length bs) - ?A" by (auto simp add: rest_def)
  from KD_optimizer_step_Inr[OF wc, of E e "fold (KD_accumulate E self) win loc"]
  obtain evs0 loc0 where
    step: "KD_optimizer_step E e (self, fold (KD_accumulate E self) win loc)
            = Inr (ScaleGrads (1 / real (num_tokens (fold (KD_accumulate E self) win loc))) # evs0,
                   (self\<lparr>global_step := global_step self + 1\<rparr>, loc0))"
    and o1: "length (filter is_OptimizerStep evs0) = 1"
    and b0: "filter is_Backward evs0 = []"
    by (elim exE conjE)
  let ?c = "ScaleGrads (1 / real (num_tokens (fold (KD_accumulate E self) win loc)))"
  let ?backs = "map (\<lambda>b. Backward (KD_backward_grad E self (weights loc) b)) win"
  from lt cap have nocap: "max_steps_per_epoch self \<noteq> Some ?q" by simp
  note W = KD_batches_window[OF A idx lw nocap step, of rest]
  have cb: "int (length (filter is_Backward ?backs)) = ?A"
    using lw by (simp add: filter_map comp_def)
  have co: "filter is_OptimizerStep ?backs = []"
    by (simp add: filter_map comp_def)
  show ?case
  proof (cases "?q + 1 = M")
    case True
    with W cap have "KD_batches E e idx bs (self, loc)
       = Inr (?backs @ ?c # evs0, (self\<lparr>global_step := global_step self + 1\<rparr>, loc0))"
      by (simp add: bs)
    moreover have "int (length (filter is_Backward (?backs @ ?c # evs0))) = (M - ?q) * ?A"
      using cb b0 True by (simp add: filter_map comp_def)
    moreover have "int (length (filter is_OptimizerStep (?backs @ ?c # evs0))) = M - ?q"
      using co o1 True by (simp add: filter_map comp_def)
    ultimately show ?thesis by blast
  next
    case False
    let ?self' = "self\<lparr>global_step := global_step self + 1\<rparr>"
    have q': "(idx + ?A) div ?A = ?q + 1" and m': "(idx + ?A) mod ?A = 0"
      using window_next[OF A idx] by simp_all
    from False lt have lt': "?q + 1 < M" by simp
    have k: "k = nat (M - (?q + 1))"
      using Suc.hyps(2) by simp
    have len': "(M - (?q + 1)) * ?A \<le> int (length rest)"
      using len lr by (simp add: algebra_simps)
    from Suc.hyps(1)[where idx = "idx + ?A" and self = ?self' and bs = rest and loc = loc0]
      k A wc cap m' lt' q' len'
    obtain evs' g loc' where
      r: "KD_batches E e (idx + ?A) rest (?self', loc0) = Inr (evs', (self\<lparr>global_step := g\<rparr>, loc'))"
      and rb: "int (length (filter is_Backward evs')) = (M - (?q + 1)) * ?A"
      and ro: "int (length (filter is_OptimizerStep evs')) = M - (?q + 1)"
      by auto
    from W cap False r have "KD_batches E e idx bs (self, loc)
       = Inr (?backs @ (?c # evs0) @ evs', (self\<lparr>global_step := g\<rparr>, loc'))"
      by (simp add: bs)
    moreover have "int (length (filter is_Backward (?backs @ (?c # evs0) @ evs'))) = (M - ?q) * ?A"
      using cb b0 rb by (simp add: filter_map comp_def algebra_simps)
    moreover have "int (length (filter is_OptimizerStep (?backs @ (?c # evs0) @ evs'))) = M - ?q"
      using co o1 ro by (simp add: filter_map comp_def)
    ultimately show ?thesis by blast
  qed
qed





subsection \<open>Accumulation windows of the preference loop\<close>

text \<open>
  The same facts for the preference loop, whose test for leaving the loop comes before the
  iteration instead of after it.
\<close>

lemma DPO_accumulate_weights [simp]: "weights (DPO_accumulate E self b loc) = weights loc"
  by (simp add: DPO_accumulate_def Let_def split: prod.splits)

lemma fold_DPO_accumulate_weights [simp]:
  "weights (fold (DPO_accumulate E self) bs loc) = weights loc"
  by (induction bs arbitrary: loc) simp_all

lemma DPO_accumulate_global_step [simp]:
  "DPO_accumulate E (self\<lparr>global_step := g\<rparr>) = DPO_accumulate E self"
  by (rule ext, rule ext) (simp add: DPO_accumulate_def DPO_backward_grad_def)

lemma DPO_backward_grad_global_step [simp]:
  "DPO_backward_grad E (self\<lparr>global_step := g\<rparr>) = DPO_backward_grad E self"
  by (rule ext, rule ext) (simp add: DPO_backward_grad_def)


lemma DPO_optimizer_step_Inr:
  assumes "log_every_n_steps self \<noteq> 0" "save_every_n_steps self = Some n" "n \<noteq> 0"
  shows "\<exists>evs loc'. DPO_optimizer_step E e ms (self, loc)
            = Inr (OptimizerStep (grad loc) # evs,
                   (self\<lparr>global_step := global_step self + 1\<rparr>, loc'))
          \<and> filter is_OptimizerStep evs = []
          \<and> filter is_Backward evs = []
          \<and> (\<forall>ev \<in> set evs. is_SaveCheckpoint ev \<longrightarrow> \<not> ckpt_full_tensors ev)
          \<and> num_tokens loc' = 0 \<and> grad loc' = 0 \<and> running_loss loc' = 0"
  using assms
  by (auto simp: DPO_optimizer_step_def DPO_save_checkpoint_def Let_def)


lemma DPO_batches_accumulate:
  assumes "gradient_accumulation_steps self \<noteq> 0"
    and "\<forall>j < length bs. (idx + 1 + int j) mod gradient_accumulation_steps self \<noteq> 0"
    and "\<forall>j < length bs. max_steps_per_epoch self
                            \<noteq> Some ((idx + int j) div gradient_accumulation_steps self)"
  shows "DPO_batches E e idx (bs @ rest) (self, loc) =
     (case DPO_batches E e (idx + int (length bs)) rest (self, fold (DPO_accumulate E self) bs loc) of
        Inl err \<Rightarrow> Inl err
      | Inr (evs, st') \<Rightarrow>
          Inr (map (\<lambda>b. Backward (DPO_backward_grad E self (weights loc) b)) bs @ evs, st'))"
  using assms
proof (induction bs arbitrary: idx loc)
  case Nil
  show ?case by (simp split: sum.splits)
next
  case (Cons b bs)
  from Cons.prems(2) have m0: "(idx + 1) mod gradient_accumulation_steps self \<noteq> 0"
    by (auto dest: spec[of _ 0])
  from Cons.prems(3) have d0: "max_steps_per_epoch self \<noteq> Some (idx div gradient_accumulation_steps self)"
    by (auto dest: spec[of _ 0])
  have mb: "DPO_microbatch E e idx b (self, loc)
      = Inr ([Backward (DPO_backward_grad E self (weights loc) b)], (self, DPO_accumulate E self b loc))"
    using Cons.prems(1) m0 by (simp add: DPO_microbatch_def Let_def)
  have p2: "\<forall>j < length bs. (idx + 1 + 1 + int j) mod gradient_accumulation_steps self \<noteq> 0"
  proof (intro allI impI)
    fix j assume "j < length bs"
    then have "Suc j < length (b # bs)" by simp
    from Cons.prems(2)[rule_format, OF this]
    show "(idx + 1 + 1 + int j) mod gradient_accumulation_steps self \<noteq> 0"
      by (simp add: algebra_simps)
  qed
  have p3: "\<forall>j < length bs. max_steps_per_epoch self
                            \<noteq> Some ((idx + 1 + int j) div gradient_accumulation_steps self)"
  proof (intro allI impI)
    fix j assume "j < length bs"
    then have "Suc j < length (b # bs)" by simp
    from Cons.prems(3)[rule_format, OF this]
    show "max_steps_per_epoch self \<noteq> Some ((idx + 1 + int j) div gradient_accumulation_steps self)"
      by (simp add: algebra_simps)
  qed
  have ix: "idx + 1 + int (length bs) = idx + int (length (b # bs))" by simp
  show ?case
    using mb d0 Cons.prems(1) Cons.IH[OF Cons.prems(1) p2 p3, of "DPO_accumulate E self b loc"]
    unfolding ix
    by (auto split: sum.splits prod.splits option.splits)
qed

lemma DPO_batches_window:
  assumes A: "0 < gradient_accumulation_steps self"
    and idx: "idx mod gradient_accumulation_steps self = 0"
    and len: "int (length win) = gradient_accumulation_steps self"
    and cap: "max_steps_per_epoch self \<noteq> Some (idx div gradient_accumulation_steps self)"
    and step: "DPO_optimizer_step E e (DPO_metrics E (weights loc) (last win))
                 (self, fold (DPO_accumulate E self) win loc) = Inr (evs, st')"
  shows "DPO_batches E e idx (win @ rest) (self, loc) =
     (case DPO_batches E e (idx + gradient_accumulation_steps self) rest st' of
        Inl err \<Rightarrow> Inl err
      | Inr (evs', st'') \<Rightarrow>
          Inr (map (\<lambda>b. Backward (DPO_backward_grad E self (weights loc) b)) win
                 @ evs @ evs', st''))"
proof -
  let ?A = "gradient_accumulation_steps self"
  from A len have ne: "win \<noteq> []" by auto
  define xs where "xs = butlast win"
  define b where "b = last win"
  from ne have win: "win = xs @ [b]" by (simp add: xs_def b_def)
  from len win have lx: "int (length xs) + 1 = ?A" by simp
  have c1: "\<forall>j < length xs. (idx + 1 + int j) mod ?A \<noteq> 0"
  proof (intro allI impI)
    fix j assume "j < length xs"
    with lx have "0 \<le> 1 + int j" "1 + int j < ?A" by auto
    from window_index(1)[OF A idx this] show "(idx + 1 + int j) mod ?A \<noteq> 0"
      by (simp add: add.assoc)
  qed
  have c2: "\<forall>j < length xs. max_steps_per_epoch self \<noteq> Some ((idx + int j) div ?A)"
  proof (intro allI impI)
    fix j assume "j < length xs"
    with lx have "0 \<le> int j" "int j < ?A" by auto
    from window_index(2)[OF A idx this] cap
    show "max_steps_per_epoch self \<noteq> Some ((idx + int j) div ?A)"
      by simp
  qed
  from lx have "0 \<le> int (length xs)" "int (length xs) < ?A" by auto
  from window_index(2)[OF A idx this] cap
  have c3: "max_steps_per_epoch self \<noteq> Some ((idx + int (length xs)) div ?A)" by simp
  from A have A0: "?A \<noteq> 0" by simp
  have ix: "idx + int (length xs) + 1 = idx + ?A" using lx by simp
  have fo: "DPO_accumulate E self b (fold (DPO_accumulate E self) xs loc)
              = fold (DPO_accumulate E self) win loc"
    by (simp add: win)
  have mb: "DPO_microbatch E e (idx + int (length xs)) b (self, fold (DPO_accumulate E self) xs loc)
      = Inr (Backward (DPO_backward_grad E self (weights loc) b) # evs, st')"
    using A0 window_next(1)[OF A idx] step[folded b_def]
    by (simp add: DPO_microbatch_def Let_def ix fo)
  have last: "DPO_batches E e (idx + int (length xs)) (b # rest) (self, fold (DPO_accumulate E self) xs loc) =
     (case DPO_batches E e (idx + ?A) rest st' of
        Inl err \<Rightarrow> Inl err
      | Inr (evs', st'') \<Rightarrow>
          Inr (Backward (DPO_backward_grad E self (weights loc) b) # evs @ evs', st''))"
    using mb c3 A0
    by (auto simp add: ix split: sum.splits option.splits)
  have "DPO_batches E e idx (win @ rest) (self, loc) = DPO_batches E e idx (xs @ (b # rest)) (self, loc)"
    by (simp add: win)
  also have "\<dots> = (case DPO_batches E e (idx + int (length xs)) (b # rest)
                            (self, fold (DPO_accumulate E self) xs loc) of
        Inl err \<Rightarrow> Inl err
      | Inr (evs, st') \<Rightarrow>
          Inr (map (\<lambda>b. Backward (DPO_backward_grad E self (weights loc) b)) xs @ evs, st'))"
    by (rule DPO_batches_accumulate[OF A0 c1 c2])
  finally show ?thesis
    unfolding last by (simp add: win split: sum.splits)
qed


lemma DPO_capped_windows:
  assumes "0 < gradient_accumulation_steps self" "log_every_n_steps self \<noteq> 0"
    "save_every_n_steps self = Some n" "n \<noteq> 0"
    "max_steps_per_epoch self = Some M"
    and "idx mod gradient_accumulation_steps self = 0"
    and "idx div gradient_accumulation_steps self \<le> M"
    and "(M - idx div gradient_accumulation_steps self) * gradient_accumulation_steps self
           \<le> int (length bs)"
  shows "\<exists>evs g loc'. DPO_batches E e idx bs (self, loc) = Inr (evs, (self\<lparr>global_step := g\<rparr>, loc'))
          \<and> int (length (filter is_Backward evs))
              = (M - idx div gradient_accumulation_steps self) * gradient_accumulation_steps self
          \<and> int (length (filter is_OptimizerStep evs)) = M - idx div gradient_accumulation_steps self"
  using assms
proof (induction k \<equiv> "nat (M - idx div gradient_accumulation_steps self)" arbitrary: idx bs self loc)
  case 0
  then have q: "idx div gradient_accumulation_steps self = M" by simp
  have "DPO_batches E e idx bs (self, loc) = Inr ([], (self\<lparr>global_step := global_step self\<rparr>, loc))"
    using "0.prems"(1,5) q by (cases bs) simp_all
  then show ?case using q by (intro exI[of _ "[]"] exI[of _ "global_step self"] exI[of _ loc]) simp
next
  case (Suc k)
  let ?A = "gradient_accumulation_steps self"
  let ?q = "idx div ?A"
  note A = Suc.prems(1) and wc = Suc.prems(2-4) and cap = Suc.prems(5)
    and idx = Suc.prems(6) and le = Suc.prems(7) and len = Suc.prems(8)
  from Suc.hyps(2) have lt: "?q < M" by simp
  define win where "win = take (nat ?A) bs"
  define rest where "rest = drop (nat ?A) bs"
  have bs: "bs = win @ rest" by (simp add: win_def rest_def)
  from lt A have "1 * ?A \<le> (M - ?q) * ?A" by (intro mult_right_mono) auto
  with len have Ale: "?A \<le> int (length bs)" by simp
  with A have lw: "int (length win) = ?A" by (auto simp add: win_def min_def)
  from Ale A have lr: "int (length rest) = int (length bs) - ?A" by (auto simp add: rest_def)
  let ?loc = "fold (DPO_accumulate E self) win loc"
  from DPO_optimizer_step_Inr[OF wc, of E e "DPO_metrics E (weights loc) (last win)" ?loc]
  obtain evs0 loc0 where
    step: "DPO_optimizer_step E e (DPO_metrics E (weights loc) (last win)) (self, ?loc)
            = Inr (OptimizerStep (grad ?loc) # evs0,
                   (self\<lparr>global_step := global_step self + 1\<rparr>, loc0))"
    and o0: "filter is_OptimizerStep evs0 = []"
    and b0: "filter is_Backward evs0 = []"
    by (elim exE conjE)
  let ?c = "OptimizerStep (grad ?loc)"
  let ?backs = "map (\<lambda>b. Backward (DPO_backward_grad E self (weights loc) b)) win"
  from lt cap have nocap: "max_steps_per_epoch self \<noteq> Some ?q" by simp
  note W = DPO_batches_window[OF A idx lw nocap step, of rest]
  have cb: "int (length (filter is_Backward ?backs)) = ?A"
    using lw by (simp add: filter_map comp_def)
  have co: "filter is_OptimizerStep ?backs = []"
    by (simp add: filter_map comp_def)
  let ?self' = "self\<lparr>global_step := global_step self + 1\<rparr>"
  have q': "(idx + ?A) div ?A = ?q + 1" and m': "(idx + ?A) mod ?A = 0"
    using window_next[OF A idx] by simp_all
  from lt have le': "?q + 1 \<le> M" by simp
  have k: "k = nat (M - (?q + 1))"
    using Suc.hyps(2) by simp
  have len': "(M - (?q + 1)) * ?A \<le> int (length rest)"
    using len lr by (simp add: algebra_simps)
  from Suc.hyps(1)[where idx = "idx + ?A" and self = ?self' and bs = rest and loc = loc0]
    k A wc cap m' le' q' len'
  obtain evs' g loc' where
    r: "DPO_batches E e (idx + ?A) rest (?self', loc0) = Inr (evs', (self\<lparr>global_step := g\<rparr>, loc'))"
    and rb: "int (length (filter is_Backward evs')) = (M - (?q + 1)) * ?A"
    and ro: "int (length (filter is_OptimizerStep evs')) = M - (?q + 1)"
    by auto
  from W r have "DPO_batches E e idx bs (self, loc)
     = Inr (?backs @ (?c # evs0) @ evs', (self\<lparr>global_step := g\<rparr>, loc'))"
    by (simp add: bs)
  moreover have "int (length (filter is_Backward (?backs @ (?c # evs0) @ evs'))) = (M - ?q) * ?A"
    using cb b0 rb by (simp add: filter_map comp_def algebra_simps)
  moreover have "int (length (filter is_OptimizerStep (?backs @ (?c # evs0) @ evs'))) = M - ?q"
    using co o0 ro by (simp add: filter_map comp_def)
  ultimately show ?case by blast
qed

lemma cap_le_length:
  assumes "0 < (A::int)" "M < L div A"
  shows "M * A \<le> L"
proof -
  from assms have "M * A \<le> (L div A) * A" by (intro mult_right_mono) auto
  also have "\<dots> = L - L mod A" by (simp add: minus_mod_eq_div_mult)
  also from assms(1) have "\<dots> \<le> L" by simp
  finally show ?thesis .
qed

text \<open>
  Claim C7. Let \<open>max_steps_per_epoch\<close> be \<open>M\<close> and cap the schedule, \<open>M < L div A\<close> for the
  \<open>L\<close> batches of the epoch and the accumulation factor \<open>A > 0\<close>, and let no divisor of the
  loop be zero. Then the epoch's loop returns, having run exactly \<open>A * M\<close> iterations (one
  \<^verbatim>\<open>backward\<close> each) and exactly \<open>M\<close> optimizer steps. The distillation loop tests
  \<^verbatim>\<open>(idx + 1) // A == M\<close> after an iteration, the preference loop \<^verbatim>\<open>idx // A == M\<close> before
  it. For the distillation loop \<open>M\<close> is positive, as the specification types it; the
  preference loop needs \<open>0 \<le> M\<close> only.
\<close>

theorem capped_epoch_consumption:
  "(0 < gradient_accumulation_steps kd \<and> log_every_n_steps kd \<noteq> 0
      \<and> save_every_n_steps kd = Some n \<and> n \<noteq> 0 \<and> steps_per_epoch kd \<noteq> 0
      \<and> max_steps_per_epoch kd = Some M \<and> 0 < M
      \<and> M < int (length bs) div gradient_accumulation_steps kd
    \<longrightarrow> (\<exists>evs st'. KD_batches E e 0 bs (kd, loc) = Inr (evs, st')
           \<and> int (length (filter is_Backward evs)) = gradient_accumulation_steps kd * M
           \<and> int (length (filter is_OptimizerStep evs)) = M))
   \<and> (0 < gradient_accumulation_steps dpo \<and> log_every_n_steps dpo \<noteq> 0
      \<and> save_every_n_steps dpo = Some n' \<and> n' \<noteq> 0
      \<and> max_steps_per_epoch dpo = Some M' \<and> 0 \<le> M'
      \<and> M' < int (length bs') div gradient_accumulation_steps dpo
    \<longrightarrow> (\<exists>evs st'. DPO_batches E' e' 0 bs' (dpo, loc') = Inr (evs, st')
           \<and> int (length (filter is_Backward evs)) = gradient_accumulation_steps dpo * M'
           \<and> int (length (filter is_OptimizerStep evs)) = M'))"
proof (intro conjI impI)
  assume h: "0 < gradient_accumulation_steps kd \<and> log_every_n_steps kd \<noteq> 0
      \<and> save_every_n_steps kd = Some n \<and> n \<noteq> 0 \<and> steps_per_epoch kd \<noteq> 0
      \<and> max_steps_per_epoch kd = Some M \<and> 0 < M
      \<and> M < int (length bs) div gradient_accumulation_steps kd"
  then have len: "M * gradient_accumulation_steps kd \<le> int (length bs)"
    by (intro cap_le_length) auto
  from h len KD_capped_windows[of kd n M 0 bs E e loc]
  show "\<exists>evs st'. KD_batches E e 0 bs (kd, loc) = Inr (evs, st')
           \<and> int (length (filter is_Backward evs)) = gradient_accumulation_steps kd * M
           \<and> int (length (filter is_OptimizerStep evs)) = M"
    by (auto simp: mult.commute)
next
  assume h: "0 < gradient_accumulation_steps dpo \<and> log_every_n_steps dpo \<noteq> 0
      \<and> save_every_n_steps dpo = Some n' \<and> n' \<noteq> 0
      \<and> max_steps_per_epoch dpo = Some M' \<and> 0 \<le> M'
      \<and> M' < int (length bs') div gradient_accumulation_steps dpo"
  then have len: "M' * gradient_accumulation_steps dpo \<le> int (length bs')"
    by (intro cap_le_length) auto
  from h len DPO_capped_windows[of dpo n' M' 0 bs' E' e' loc']
  show "\<exists>evs st'. DPO_batches E' e' 0 bs' (dpo, loc') = Inr (evs, st')
           \<and> int (length (filter is_Backward evs)) = gradient_accumulation_steps dpo * M'
           \<and> int (length (filter is_OptimizerStep evs)) = M'"
    by (auto simp: mult.commute)
qed

theorem capped_epoch_consumption_witness:
  "(\<exists>evs st'. KD_batches ex_KD_env 0 0 (dataloader ex_KD_env 0)
        (ex_KD_recipe\<lparr>max_steps_per_epoch := Some 1\<rparr>,
         \<lparr>num_tokens = 0, weights = 0, grad = 0, running_class_loss = 0, running_kd_loss = 0\<rparr>)
        = Inr (evs, st')
      \<and> int (length (filter is_Backward evs)) = 1 \<and> int (length (filter is_OptimizerStep evs)) = 1)
   \<and> (\<exists>evs st'. DPO_batches ex_DPO_env 0 0 (dataloader ex_DPO_env 0)
        (ex_recipe\<lparr>max_steps_per_epoch := Some 1\<rparr>,
         \<lparr>num_tokens = 0, weights = 0, grad = 0, running_loss = 0\<rparr>)
        = Inr (evs, st')
      \<and> int (length (filter is_Backward evs)) = 1 \<and> int (length (filter is_OptimizerStep evs)) = 1)"
  using capped_epoch_consumption
    [where kd = "ex_KD_recipe\<lparr>max_steps_per_epoch := Some 1\<rparr>" and n = 2 and M = 1
       and bs = "dataloader ex_KD_env 0" and E = ex_KD_env and e = 0
       and loc = "\<lparr>num_tokens = 0, weights = 0, grad = 0,
                   running_class_loss = 0, running_kd_loss = 0\<rparr>"
       and dpo = "ex_recipe\<lparr>max_steps_per_epoch := Some 1\<rparr>" and n' = 2 and M' = 1
       and bs' = "dataloader ex_DPO_env 0" and E' = ex_DPO_env and e' = 0
       and loc' = "\<lparr>num_tokens = 0, weights = 0, grad = 0, running_loss = 0\<rparr>"]
  by (simp add: ex_KD_env_def ex_KD_recipe_def ex_DPO_env_def ex_recipe_def)

subsection \<open>The window an epoch leaves incomplete\<close>






lemma KD_accumulate_epochs_run [simp]:
  "KD_accumulate E (self\<lparr>epochs_run := r\<rparr>) = KD_accumulate E self"
  by (rule ext, rule ext) (simp add: KD_accumulate_def KD_backward_grad_def)

lemma KD_backward_grad_epochs_run [simp]:
  "KD_backward_grad E (self\<lparr>epochs_run := r\<rparr>) = KD_backward_grad E self"
  by (rule ext, rule ext) (simp add: KD_backward_grad_def)












lemma DPO_accumulate_epochs_run [simp]:
  "DPO_accumulate E (self\<lparr>epochs_run := r\<rparr>) = DPO_accumulate E self"
  by (rule ext, rule ext) (simp add: DPO_accumulate_def DPO_backward_grad_def)

lemma DPO_backward_grad_epochs_run [simp]:
  "DPO_backward_grad E (self\<lparr>epochs_run := r\<rparr>) = DPO_backward_grad E self"
  by (rule ext, rule ext) (simp add: DPO_backward_grad_def)







end
